theory Spec2Isabelle
  imports Complex_Main "HOL-Library.Sublist"
begin

section \<open>MayaCmd: the output-stream interpretation engine of the render plugin\<close>

text \<open>
  A shallow embedding of the stdout handlers, the handler registry and the exit-code
  check of \<^verbatim>\<open>src/MayaCmd.py\<close> (class \<^verbatim>\<open>MayaCmdPlugin\<close>).

  \<^item> The mutable instance fields of the plugin are the record \<open>plugin\<close>; every handler
    takes the record and returns the updated one.
  \<^item> The calls into the job-execution host that only report something
    (\<^verbatim>\<open>SetProgress\<close>, \<^verbatim>\<open>SetStatusMessage\<close>, \<^verbatim>\<open>LogInfo\<close>, \<^verbatim>\<open>LogWarning\<close>,
    \<^verbatim>\<open>SuppressThisLine\<close>) are appended, in order, to the field \<open>hostCalls\<close>.
  \<^item> \<^verbatim>\<open>FailRender\<close> and the exceptions of Python's \<^verbatim>\<open>int\<close>, \<^verbatim>\<open>float\<close> and \<^verbatim>\<open>/\<close> are
    values of the type \<open>error\<close>; a handler that can raise returns \<open>error + plugin\<close>.
  \<^item> Python integers are \<open>int\<close>; \<^verbatim>\<open>//\<close> is \<open>div\<close> (both round towards minus infinity).
    Python floats are modelled by exact rationals (\<open>rat\<close>): the rounding of IEEE
    doubles is abstracted away.
\<close>

subsection \<open>Strings\<close>

text \<open>Python's \<^verbatim>\<open>s.find(sub)\<close>: the lowest index where \<^verbatim>\<open>sub\<close> occurs in \<^verbatim>\<open>s\<close>, or -1.\<close>

fun find_from :: "string \<Rightarrow> string \<Rightarrow> int \<Rightarrow> int" where
  "find_from [] sub i = (if sub = [] then i else -1)"
| "find_from (c # cs) sub i = (if prefix sub (c # cs) then i else find_from cs sub (i + 1))"

definition find_str :: "string \<Rightarrow> string \<Rightarrow> int" where
  "find_str s sub = find_from s sub 0"

text \<open>Python's \<^verbatim>\<open>"%d" % n\<close> and \<^verbatim>\<open>str(n)\<close> for an integer: decimal digits, a minus sign first
  when negative.\<close>

fun str_nat :: "nat \<Rightarrow> string" where
  "str_nat n = (if n < 10 then [''0123456789'' ! n]
                else str_nat (n div 10) @ [''0123456789'' ! (n mod 10)])"

declare str_nat.simps [simp del]

definition str_int :: "int \<Rightarrow> string" where
  "str_int i = (if i < 0 then CHR ''-'' # str_nat (nat (- i)) else str_nat (nat i))"

subsection \<open>Errors and host calls\<close>

datatype error =
    FailRender string   \<comment> \<open>raised by the host's \<^verbatim>\<open>FailRender(message)\<close>\<close>
  | ValueError          \<comment> \<open>\<^verbatim>\<open>int(s)\<close> or \<^verbatim>\<open>float(s)\<close> on a string that is not a number\<close>
  | ZeroDivisionError   \<comment> \<open>float division by zero\<close>

datatype host_call =
    SetProgressCall rat
  | SetStatusMessageCall string
  | LogInfoCall string
  | LogWarningCall string
  | SuppressThisLineCall

subsection \<open>Numbers read from captured text\<close>

definition digit_of :: "char \<Rightarrow> nat option" where
  "digit_of c =
     map_of [(CHR ''0'', 0), (CHR ''1'', 1), (CHR ''2'', 2), (CHR ''3'', 3), (CHR ''4'', 4),
             (CHR ''5'', 5), (CHR ''6'', 6), (CHR ''7'', 7), (CHR ''8'', 8), (CHR ''9'', 9)] c"

fun nat_of_digits :: "nat \<Rightarrow> string \<Rightarrow> nat option" where
  "nat_of_digits acc [] = Some acc"
| "nat_of_digits acc (c # cs) =
     (case digit_of c of None \<Rightarrow> None | Some d \<Rightarrow> nat_of_digits (10 * acc + d) cs)"

text \<open>Python's \<^verbatim>\<open>int(s)\<close> on the text of a captured group: one or more ASCII digits, with
  an optional minus sign. The groups passed to \<^verbatim>\<open>int\<close> are all of the form
  \<^verbatim>\<open>[0-9]+\<close>; any other text is a \<^verbatim>\<open>ValueError\<close> here (the surrounding blanks, the plus
  sign and the underscores Python also accepts cannot occur in such a group).\<close>

definition py_int :: "string \<Rightarrow> error + int" where
  "py_int s =
     (let body = (if take 1 s = ''-'' then drop 1 s else s) in
      if body = [] then Inl ValueError
      else case nat_of_digits 0 body of
             None \<Rightarrow> Inl ValueError
           | Some n \<Rightarrow> Inr (if take 1 s = ''-'' then - int n else int n))"

text \<open>Python's \<^verbatim>\<open>float(s)\<close> on the text of a captured group, as an exact rational:
  an optional minus sign, digits, and optionally a point and more digits, with at least
  one digit. This covers the groups \<^verbatim>\<open>[0-9]+\<close>, \<^verbatim>\<open>[-]?[0-9]+\<close> and \<^verbatim>\<open>[0-9]+\.[0-9]+\<close>;
  any other text is a \<^verbatim>\<open>ValueError\<close> here (exponents, \<^verbatim>\<open>inf\<close>, \<^verbatim>\<open>nan\<close> and surrounding
  blanks, which only the group \<^verbatim>\<open>(.*)\<close> of one pattern could deliver, are not modelled).\<close>

definition py_float :: "string \<Rightarrow> error + rat" where
  "py_float s =
     (let body = (if take 1 s = ''-'' then drop 1 s else s);
          ip = takeWhile (\<lambda>c. c \<noteq> CHR ''.'') body;
          fp = drop 1 (dropWhile (\<lambda>c. c \<noteq> CHR ''.'') body)
      in if ip = [] \<and> fp = [] then Inl ValueError
         else case nat_of_digits 0 ip of
                None \<Rightarrow> Inl ValueError
              | Some a \<Rightarrow>
                  (case nat_of_digits 0 fp of
                     None \<Rightarrow> Inl ValueError
                   | Some b \<Rightarrow>
                       (let v = of_nat a + of_nat b / 10 ^ length fp
                        in Inr (if take 1 s = ''-'' then - v else v))))"

subsection \<open>The plugin instance and the task\<close>

text \<open>The instance fields the handlers and \<^verbatim>\<open>CheckExitCode\<close> read or write. The FumeFX
  fields start as the integer 0 and later hold captured text; they are only used through
  \<^verbatim>\<open>float(...)\<close> and \<^verbatim>\<open>str(...)\<close>, so they are strings here, starting as \<^verbatim>\<open>"0"\<close>.\<close>

record plugin =
  Renderer :: string
  FinishedFrameCount :: int
  IgnoreError211 :: bool
  PreviousFinishedFrame :: string
  SkipNextFrame :: bool
  vrayRenderingImage :: bool
  CausticCurrentFrame :: int
  CausticTotalPasses :: int
  initialFrame :: "rat option"
  FumeFXStartFrame :: string
  FumeFXEndFrame :: string
  FumeFXCurrFrame :: string
  FumeFXMemUsed :: string
  FumeFXFrameTime :: string
  FumeFXEstTime :: string
  hostCalls :: "host_call list"

text \<open>The class attributes (lines 31-52), \<^verbatim>\<open>__init__\<close> and the FumeFX initial values of
  \<^verbatim>\<open>InitializeProcess\<close>, with nothing reported to the host yet.\<close>

definition new_plugin :: plugin where
  "new_plugin =
     \<lparr> Renderer = ''mayasoftware'', FinishedFrameCount = 0, IgnoreError211 = False,
       PreviousFinishedFrame = [], SkipNextFrame = False, vrayRenderingImage = False,
       CausticCurrentFrame = 0, CausticTotalPasses = 0, initialFrame = None,
       FumeFXStartFrame = ''0'', FumeFXEndFrame = ''0'', FumeFXCurrFrame = ''0'',
       FumeFXMemUsed = ''0Mb'', FumeFXFrameTime = ''00:00.00'', FumeFXEstTime = ''00:00:00'',
       hostCalls = [] \<rparr>"

text \<open>What the host supplies for one task: the frame range, the typed plugin-info and
  configuration entries, and the command line built by \<^verbatim>\<open>RenderArgument\<close> (the
  argument builder itself is not modelled).\<close>

record task =
  StartFrame :: int
  EndFrame :: int
  BooleanPluginInfo :: "string \<rightharpoonup> bool"
  BooleanConfig :: "string \<rightharpoonup> bool"
  RenderArgumentText :: string

text \<open>Modelled from the spec: the host's accessors of typed key-value entries with
  defaulting (section 6); the value of an entry that is present, the default otherwise.\<close>

definition GetBooleanPluginInfoEntryWithDefault :: "task \<Rightarrow> string \<Rightarrow> bool \<Rightarrow> bool" where
  "GetBooleanPluginInfoEntryWithDefault t key dflt =
     (case BooleanPluginInfo t key of None \<Rightarrow> dflt | Some b \<Rightarrow> b)"

definition GetBooleanConfigEntryWithDefault :: "task \<Rightarrow> string \<Rightarrow> bool \<Rightarrow> bool" where
  "GetBooleanConfigEntryWithDefault t key dflt =
     (case BooleanConfig t key of None \<Rightarrow> dflt | Some b \<Rightarrow> b)"

text \<open>The reporting sinks of the host.\<close>

definition SetProgress :: "rat \<Rightarrow> plugin \<Rightarrow> plugin" where
  "SetProgress p s = s\<lparr>hostCalls := hostCalls s @ [SetProgressCall p]\<rparr>"

definition SetStatusMessage :: "string \<Rightarrow> plugin \<Rightarrow> plugin" where
  "SetStatusMessage m s = s\<lparr>hostCalls := hostCalls s @ [SetStatusMessageCall m]\<rparr>"

definition LogInfo :: "string \<Rightarrow> plugin \<Rightarrow> plugin" where
  "LogInfo m s = s\<lparr>hostCalls := hostCalls s @ [LogInfoCall m]\<rparr>"

definition LogWarning :: "string \<Rightarrow> plugin \<Rightarrow> plugin" where
  "LogWarning m s = s\<lparr>hostCalls := hostCalls s @ [LogWarningCall m]\<rparr>"

definition SuppressThisLine :: "plugin \<Rightarrow> plugin" where
  "SuppressThisLine s = s\<lparr>hostCalls := hostCalls s @ [SuppressThisLineCall]\<rparr>"

subsection \<open>The exit-code check\<close>

definition exit206_message :: string where
  "exit206_message =
     ''Maya could not parse the command line. Two common causes for this are using the wrong project directory, or using a drive root ( i.e. ''
     @ [CHR 0x22] @ ''c:'' @ [CHR 0x5C, CHR 0x22] @ '' ) as the output directory.''"

definition exit211_note :: string where
  "exit211_note =
     ''Renderer reported an error with error code 211. This will be ignored, since the option to ignore it is specified in the Job Properties.''"

definition nonzero_message :: "int \<Rightarrow> string" where
  "nonzero_message exitCode =
     ''Renderer returned non-zero error code '' @ str_int exitCode @ ''. Check the renderer's output.''"

definition CheckExitCode :: "int \<Rightarrow> plugin \<Rightarrow> error + plugin" where
  "CheckExitCode exitCode s =
     (if exitCode \<noteq> 0 then
        if exitCode = 206 then Inl (FailRender exit206_message)
        else if exitCode = 211 \<and> IgnoreError211 s then Inr (LogInfo exit211_note s)
        else Inl (FailRender (nonzero_message exitCode))
      else Inr s)"

subsection \<open>The match a handler is called with\<close>

text \<open>Modelled from the spec: the host's "get captured group N of current match" and
  "get previous raw line" (section 6). \<open>Groups\<close> holds group 0 (the whole match) and the
  numbered groups of the pattern that matched; a group the pattern does not have reads as
  the empty string.\<close>

record regex_match =
  Groups :: "string list"
  PreviousStdoutLine :: string

definition GetRegexMatch :: "regex_match \<Rightarrow> nat \<Rightarrow> string" where
  "GetRegexMatch m i = (if i < length (Groups m) then Groups m ! i else [])"

subsection \<open>The stdout handlers\<close>

text \<open>\<^verbatim>\<open>PreRenderTasks\<close>, as far as the handlers' fields go: the three resets of lines
  942-944. The rest of the function sets environment variables and maps paths through
  the host and touches none of the fields of \<open>plugin\<close>.\<close>

definition PreRenderTasks :: "plugin \<Rightarrow> plugin" where
  "PreRenderTasks s =
     s\<lparr>FinishedFrameCount := 0, PreviousFinishedFrame := [], SkipNextFrame := False\<rparr>"

definition HandleFatalError :: "regex_match \<Rightarrow> plugin \<Rightarrow> error + plugin" where
  "HandleFatalError m s = Inl (FailRender (GetRegexMatch m 0))"

definition HandlePointCloudOutput :: "plugin \<Rightarrow> plugin" where
  "HandlePointCloudOutput s = SuppressThisLine s"

definition HandleUsageError :: "task \<Rightarrow> regex_match \<Rightarrow> plugin \<Rightarrow> error + plugin" where
  "HandleUsageError t m s =
     Inl (FailRender (''Bad command line arguments: '' @ RenderArgumentText t
                      @ [CHR 0x0A] @ ''Maya Error: '' @ PreviousStdoutLine m))"

definition HandleChunkedProgress1 :: "task \<Rightarrow> regex_match \<Rightarrow> plugin \<Rightarrow> error + plugin" where
  "HandleChunkedProgress1 t m s =
     (let startFrame = StartFrame t; endFrame = EndFrame t in
      if endFrame - startFrame + 1 \<noteq> 0 then
        (case py_int (GetRegexMatch m 1) of
           Inl e \<Rightarrow> Inl e
         | Inr f \<Rightarrow>
             Inr (SetProgress
                    (of_int (100 * (f - startFrame + 1) div (endFrame - startFrame + 1))) s))
      else Inr s)"

definition HandleChunkedProgress2 :: "task \<Rightarrow> plugin \<Rightarrow> plugin" where
  "HandleChunkedProgress2 t s =
     (let s1 = s\<lparr>FinishedFrameCount := FinishedFrameCount s + 1\<rparr>;
          startFrame = StartFrame t; endFrame = EndFrame t in
      if endFrame - startFrame + 1 \<noteq> 0 then
        SetProgress (of_int (100 * FinishedFrameCount s1) / of_int (endFrame - startFrame + 1)) s1
      else s1)"

definition HandleStatusMessage :: "regex_match \<Rightarrow> plugin \<Rightarrow> plugin" where
  "HandleStatusMessage m s = SetStatusMessage (GetRegexMatch m 0) s"

text \<open>The \<^verbatim>\<open>if\<close>/\<^verbatim>\<open>elif\<close> chain of lines 1123-1188: the value of \<^verbatim>\<open>ignoreError\<close> after it.\<close>

definition ignoreError :: "string \<Rightarrow> bool" where
  "ignoreError errorMessage =
     (if find_str errorMessage ''could not get a license'' \<noteq> -1 then False
      else if find_str errorMessage ''This scene does not have any renderable cameras'' \<noteq> -1 then False
      else if find_str errorMessage ''Error: Camera'' \<noteq> -1
              \<and> find_str errorMessage ''does not exist'' \<noteq> -1 then False
      else if find_str errorMessage ''Warning: The post-processing failed while attempting to rename file'' \<noteq> -1 then False
      else if find_str errorMessage ''Error: Failed to open IFF file for reading'' \<noteq> -1 then False
      else if find_str errorMessage ''Error: An exception has occurred, rendering aborted.'' \<noteq> -1 then False
      else if find_str errorMessage ''Cannot open project'' \<noteq> -1 then False
      else if find_str errorMessage ''Could not open file. :'' \<noteq> -1 then False
      else if find_str errorMessage ''Error reading file. :'' \<noteq> -1 then False
      else if find_str errorMessage ''Error: Scene was not loaded properly, please check the scene name'' \<noteq> -1 then False
      else if find_str errorMessage ''Error: Graphics card capabilities are insufficient for rendering.'' \<noteq> -1 then False
      else if find_str errorMessage ''Error: The attribute '' \<noteq> -1
              \<and> find_str errorMessage ''was locked in a referenced file, and cannot be unlocked.'' \<noteq> -1 then False
      else if find_str errorMessage ''Not enough storage is available to process this command.'' \<noteq> -1 then False
      else if find_str errorMessage ''Error: (Mayatomr) : mental ray has stopped with errors, see the log'' \<noteq> -1 then False
      else if find_str errorMessage ''Warning: (Mayatomr.Scene) : no render camera found, final scene will be incomplete and can't be rendered'' \<noteq> -1 then False
      else if find_str errorMessage ''mental ray: out of memory'' \<noteq> -1 then False
      else if find_str errorMessage ''The specified module could not be found.'' \<noteq> -1 then False
      else if find_str errorMessage ''Error: (Mayatomr.Export) : mental ray startup failed with errors'' \<noteq> -1 then False
      else if find_str errorMessage ''Number of arguments on call to preLayerScript does not match number of parameters in procedure definition.'' \<noteq> -1 then False
      else if find_str errorMessage ''Error: rman Fatal:'' \<noteq> -1 then False
      else if find_str errorMessage ''rman Error:'' \<noteq> -1 then False
      else if find_str errorMessage ''Error: There was a fatal error rendering the scene.'' \<noteq> -1 then False
      else if find_str errorMessage ''Could not obtain a license'' \<noteq> -1 then False
      else if find_str errorMessage ''Could not read V-Ray environment variable'' \<noteq> -1 then False
      else if find_str errorMessage ''error 101003:'' \<noteq> -1
              \<and> find_str errorMessage ''can't create file'' \<noteq> -1 then False
      else if find_str errorMessage ''can't create file (No such file or directory)'' \<noteq> -1 then False
      else if find_str errorMessage ''Fatal Error:'' \<noteq> -1 then False
      else if find_str errorMessage ''Error writing render region to raw image file.'' \<noteq> -1 then False
      else if find_str errorMessage ''Error: OctaneRender is not activated!'' \<noteq> -1 then False
      else if find_str errorMessage ''Error: R12001'' \<noteq> -1 then False
      else True)"

definition strict_off_warning :: string where
  "strict_off_warning = ''Strict error checking off, ignoring the following error or warning:''"

definition strict_on_warning :: string where
  "strict_on_warning =
     ''Strict error checking on, ignoring the following unrecognized error or warning. If it is fatal, please email support@thinkboxsoftware.com with the error message.''"

definition strict_on_failure :: "string \<Rightarrow> string" where
  "strict_on_failure errorMessage =
     ''Strict error checking on, caught the following error or warning.'' @ [CHR 0x0A]
     @ errorMessage @ [CHR 0x0A]
     @ ''If this error message is unavoidable but not fatal, please email support@thinkboxsoftware.com with the error message, and disable the Maya job setting Strict Error Checking.''"

text \<open>\<^verbatim>\<open>FailRender\<close> raises, so the code after the "Cannot load scene" test only runs when
  the test fails.\<close>

definition HandleErrorMessage :: "task \<Rightarrow> regex_match \<Rightarrow> plugin \<Rightarrow> error + plugin" where
  "HandleErrorMessage t m s =
     (let errorMessage = GetRegexMatch m 0 in
      if find_str errorMessage ''Cannot load scene'' \<noteq> -1 then Inl (FailRender errorMessage)
      else if \<not> GetBooleanPluginInfoEntryWithDefault t ''StrictErrorChecking'' True then
        Inr (LogWarning strict_off_warning s)
      else if ignoreError errorMessage then
        (if GetBooleanConfigEntryWithDefault t ''SuppressWarnings'' False
            \<and> find_str errorMessage ''Warning:'' \<noteq> -1
         then Inr (SuppressThisLine s)
         else Inr (LogWarning strict_on_warning s))
      else Inl (FailRender (strict_on_failure errorMessage)))"

definition HandleProgressMessage1 :: "task \<Rightarrow> regex_match \<Rightarrow> plugin \<Rightarrow> error + plugin" where
  "HandleProgressMessage1 t m s =
     (let startFrame = StartFrame t; endFrame = EndFrame t in
      if endFrame - startFrame + 1 \<noteq> 0 then
        (case py_float (GetRegexMatch m 1) of
           Inl e \<Rightarrow> Inl e
         | Inr p \<Rightarrow>
             Inr (SetProgress ((p + of_int (FinishedFrameCount s * 100))
                               / of_int (endFrame - startFrame + 1)) s))
      else Inr s)"

definition HandleProgressMessage2 :: "task \<Rightarrow> plugin \<Rightarrow> plugin" where
  "HandleProgressMessage2 t s =
     (let s1 = s\<lparr>FinishedFrameCount := FinishedFrameCount s + 1\<rparr>;
          startFrame = StartFrame t; endFrame = EndFrame t in
      if endFrame - startFrame + 1 \<noteq> 0 then
        SetProgress (of_int (FinishedFrameCount s1 * 100) / of_int (endFrame - startFrame + 1)) s1
      else s1)"

definition HandleProgressMessage3 :: "regex_match \<Rightarrow> plugin \<Rightarrow> error + plugin" where
  "HandleProgressMessage3 m s =
     (case py_float (GetRegexMatch m 1) of
        Inl e \<Rightarrow> Inl e
      | Inr p \<Rightarrow> Inr (SetProgress p s))"

definition HandleVrayMessage :: "regex_match \<Rightarrow> plugin \<Rightarrow> plugin" where
  "HandleVrayMessage m s =
     (let errorMessage = GetRegexMatch m 0 in
      if find_str errorMessage ''V-Ray: Building light cache'' \<noteq> -1 then
        SetStatusMessage ''Building light cache.'' s
      else if find_str errorMessage ''V-Ray: Building global photon map'' \<noteq> -1 then
        SetStatusMessage (GetRegexMatch m 0) s
      else if find_str errorMessage ''V-Ray: Prepass'' \<noteq> -1 then
        SetStatusMessage (GetRegexMatch m 0) s
      else if find_str errorMessage ''V-Ray: Rendering image'' \<noteq> -1 then
        SetStatusMessage (GetRegexMatch m 0) (s\<lparr>vrayRenderingImage := True\<rparr>)
      else s)"

definition HandleVrayProgress :: "task \<Rightarrow> regex_match \<Rightarrow> plugin \<Rightarrow> error + plugin" where
  "HandleVrayProgress t m s =
     (if vrayRenderingImage s then
        (let startFrame = StartFrame t; endFrame = EndFrame t in
         if endFrame - startFrame + 1 \<noteq> 0 then
           (case py_float (GetRegexMatch m 1) of
              Inl e \<Rightarrow> Inl e
            | Inr p \<Rightarrow>
                Inr (SetProgress ((p + of_int (FinishedFrameCount s * 100))
                                  / of_int (endFrame - startFrame + 1)) s))
         else Inr s)
      else Inr s)"

definition HandleVrayFrameComplete :: "plugin \<Rightarrow> plugin" where
  "HandleVrayFrameComplete s =
     (if vrayRenderingImage s then
        s\<lparr>FinishedFrameCount := FinishedFrameCount s + 1, vrayRenderingImage := False\<rparr>
      else s)"

definition HandleVrayExportProgress :: "task \<Rightarrow> plugin \<Rightarrow> plugin" where
  "HandleVrayExportProgress t s =
     (if Renderer s = ''vrayexport'' then
        (let s1 = s\<lparr>FinishedFrameCount := FinishedFrameCount s + 1\<rparr>;
             startFrame = StartFrame t; endFrame = EndFrame t in
         if endFrame - startFrame + 1 \<noteq> 0 then
           SetProgress (of_int ((FinishedFrameCount s1 - 1) * 100)
                        / of_int (endFrame - startFrame + 1)) s1
         else s1)
      else s)"

definition HandleVrayExportComplete :: "plugin \<Rightarrow> plugin" where
  "HandleVrayExportComplete s = (if Renderer s = ''vrayexport'' then SetProgress 100 s else s)"

definition HandleRendermanProgress :: "task \<Rightarrow> regex_match \<Rightarrow> plugin \<Rightarrow> error + plugin" where
  "HandleRendermanProgress t m s =
     (let startFrame = StartFrame t; endFrame = EndFrame t;
          totalFrames = endFrame - startFrame + 1 in
      if totalFrames > 1 then
        (case py_float (GetRegexMatch m 1) of
           Inl e \<Rightarrow> Inl e
         | Inr currentFrame \<Rightarrow>
             (let first = (case initialFrame s of None \<Rightarrow> currentFrame | Some f \<Rightarrow> f);
                  s1 = s\<lparr>initialFrame := Some first\<rparr>;
                  normalizedFrame =
                    (if first > 1 then currentFrame - of_int startFrame + 1 else currentFrame)
              in Inr (SetStatusMessage (GetRegexMatch m 0)
                        (SetProgress (normalizedFrame * 100 / of_int totalFrames) s1))))
      else Inr (SetStatusMessage (GetRegexMatch m 0) s))"

definition HandleOctaneStartFrame :: "plugin \<Rightarrow> plugin" where
  "HandleOctaneStartFrame s = s\<lparr>FinishedFrameCount := FinishedFrameCount s + 1\<rparr>"

definition HandleOctaneProgress :: "task \<Rightarrow> regex_match \<Rightarrow> plugin \<Rightarrow> error + plugin" where
  "HandleOctaneProgress t m s =
     (let startFrame = StartFrame t; endFrame = EndFrame t in
      if endFrame - startFrame + 1 \<noteq> 0 then
        (case py_float (GetRegexMatch m 1) of
           Inl e \<Rightarrow> Inl e
         | Inr currSamples \<Rightarrow>
             (case py_float (GetRegexMatch m 2) of
                Inl e \<Rightarrow> Inl e
              | Inr maxSampes \<Rightarrow>
                  if maxSampes = 0 then Inl ZeroDivisionError
                  else Inr (SetStatusMessage (GetRegexMatch m 0)
                         (SetProgress
                            ((currSamples * 100 / maxSampes
                              + of_int ((FinishedFrameCount s - 1) * 100))
                             / of_int (endFrame - startFrame + 1)) s))))
      else Inr (SetStatusMessage (GetRegexMatch m 0) s))"

definition HandleCausticVisualizerCurrentFrame :: "regex_match \<Rightarrow> plugin \<Rightarrow> error + plugin" where
  "HandleCausticVisualizerCurrentFrame m s =
     (case py_int (GetRegexMatch m 1) of
        Inl e \<Rightarrow> Inl e
      | Inr n \<Rightarrow> Inr (s\<lparr>CausticCurrentFrame := n\<rparr>))"

definition HandleCausticVisualizerTotalPasses :: "regex_match \<Rightarrow> plugin \<Rightarrow> error + plugin" where
  "HandleCausticVisualizerTotalPasses m s =
     (case py_int (GetRegexMatch m 1) of
        Inl e \<Rightarrow> Inl e
      | Inr n \<Rightarrow> Inr (s\<lparr>CausticTotalPasses := n\<rparr>))"

definition HandleCausticVisualizerCurrentPass :: "task \<Rightarrow> regex_match \<Rightarrow> plugin \<Rightarrow> error + plugin" where
  "HandleCausticVisualizerCurrentPass t m s =
     (if CausticTotalPasses s > 0 then
        (let totalFrameCount = EndFrame t - StartFrame t + 1 in
         if totalFrameCount \<noteq> 0 then
           (case py_int (GetRegexMatch m 1) of
              Inl e \<Rightarrow> Inl e
            | Inr causticCurrentPass \<Rightarrow>
                (let currentFrameCount = CausticCurrentFrame s - StartFrame t in
                 Inr (SetProgress
                        (of_int (causticCurrentPass * 100 div CausticTotalPasses s
                                 + currentFrameCount * 100)
                         / of_int totalFrameCount) s)))
         else Inr s)
      else Inr s)"

definition HandleMentalRayProgress :: "task \<Rightarrow> regex_match \<Rightarrow> plugin \<Rightarrow> error + plugin" where
  "HandleMentalRayProgress t m s =
     (let startFrame = StartFrame t; endFrame = EndFrame t in
      if endFrame - startFrame + 1 \<noteq> 0 then
        (case py_float (GetRegexMatch m 1) of
           Inl e \<Rightarrow> Inl e
         | Inr p \<Rightarrow>
             Inr (SetStatusMessage (GetRegexMatch m 0)
                    (SetProgress ((p + of_int (FinishedFrameCount s * 100))
                                  / of_int (endFrame - startFrame + 1)) s)))
      else Inr s)"

definition HandleMentalRayComplete :: "task \<Rightarrow> plugin \<Rightarrow> plugin" where
  "HandleMentalRayComplete t s =
     (if SkipNextFrame s then s\<lparr>SkipNextFrame := False\<rparr>
      else
        (let s1 = s\<lparr>FinishedFrameCount := FinishedFrameCount s + 1\<rparr>;
             startFrame = StartFrame t; endFrame = EndFrame t in
         if endFrame - startFrame + 1 \<noteq> 0 then
           SetProgress (of_int (FinishedFrameCount s1 * 100)
                        / of_int (endFrame - startFrame + 1)) s1
         else s1))"

definition HandleMentalRayGathering :: "regex_match \<Rightarrow> plugin \<Rightarrow> plugin" where
  "HandleMentalRayGathering m s = SetStatusMessage (GetRegexMatch m 0) s"

definition HandleMentalRayWritingFrame :: "regex_match \<Rightarrow> plugin \<Rightarrow> plugin" where
  "HandleMentalRayWritingFrame m s =
     (let currFinishedFrame = GetRegexMatch m 1 in
      if PreviousFinishedFrame s = currFinishedFrame then s\<lparr>SkipNextFrame := True\<rparr>
      else s\<lparr>PreviousFinishedFrame := currFinishedFrame\<rparr>)"

text \<open>The patterns given to \<^verbatim>\<open>re.match\<close> here are plain text, so each test is a prefix
  test on group 0.\<close>

definition HandleFumeFXProgress :: "regex_match \<Rightarrow> plugin \<Rightarrow> error + plugin" where
  "HandleFumeFXProgress m s =
     (if prefix ''FumeFX: Starting simulation '' (GetRegexMatch m 0) then
        Inr (s\<lparr>FumeFXStartFrame := GetRegexMatch m 1, FumeFXEndFrame := GetRegexMatch m 2\<rparr>)
      else if prefix ''FumeFX: Frame: '' (GetRegexMatch m 0) then
        (let s1 = s\<lparr>FumeFXCurrFrame := GetRegexMatch m 1\<rparr> in
         case py_float (FumeFXEndFrame s1) of
           Inl e \<Rightarrow> Inl e
         | Inr fe \<Rightarrow>
         (case py_float (FumeFXStartFrame s1) of
           Inl e \<Rightarrow> Inl e
         | Inr fs \<Rightarrow>
         (case py_float (FumeFXCurrFrame s1) of
           Inl e \<Rightarrow> Inl e
         | Inr fc \<Rightarrow>
             (let denominator = fe - fs + 1 in
              if denominator = 0 then Inl ZeroDivisionError
              else
                (let progress = ((fc - fs + 1) / denominator) * 100;
                     msg = ''FumeFX: ('' @ FumeFXCurrFrame s1 @ '' to '' @ FumeFXEndFrame s1
                           @ '') - Mem: '' @ FumeFXMemUsed s1
                           @ '' - LastTime: '' @ FumeFXFrameTime s1
                           @ '' - ETA: '' @ FumeFXEstTime s1
                 in Inr (SetStatusMessage msg (SetProgress progress s1)))))))
      else if prefix ''FumeFX: Memory used:'' (GetRegexMatch m 0) then
        Inr (s\<lparr>FumeFXMemUsed := GetRegexMatch m 1\<rparr>)
      else if prefix ''FumeFX: Frame Time:'' (GetRegexMatch m 0) then
        Inr (s\<lparr>FumeFXFrameTime := GetRegexMatch m 1\<rparr>)
      else if prefix ''FumeFX: Estimated Time:'' (GetRegexMatch m 0) then
        Inr (s\<lparr>FumeFXEstTime := GetRegexMatch m 1\<rparr>)
      else Inr s)"

definition HandleRedshiftGPUAffinityError :: "regex_match \<Rightarrow> plugin \<Rightarrow> error + plugin" where
  "HandleRedshiftGPUAffinityError m s =
     (let gpu_device_id = GetRegexMatch m 1 in
      Inl (FailRender (''Redshift has detected that the selected GPU '' @ [CHR 0x27]
                       @ gpu_device_id @ [CHR 0x27]
                       @ '' is invalid. Failing the task to prevent Redshift from using all GPUs.'')))"

subsection \<open>Handler references and the processing of matches\<close>

text \<open>The bound methods that \<^verbatim>\<open>InitializeProcess\<close> attaches to patterns.\<close>

datatype handler =
    Cb_HandleFumeFXProgress
  | Cb_HandleFatalError
  | Cb_HandleUsageError
  | Cb_HandleChunkedProgress1
  | Cb_HandleChunkedProgress2
  | Cb_HandleStatusMessage
  | Cb_HandleRedshiftGPUAffinityError
  | Cb_HandleErrorMessage
  | Cb_HandleMentalRayProgress
  | Cb_HandleMentalRayGathering
  | Cb_HandleMentalRayWritingFrame
  | Cb_HandleMentalRayComplete
  | Cb_HandleProgressMessage1
  | Cb_HandleProgressMessage2
  | Cb_HandleProgressMessage3
  | Cb_HandleVrayMessage
  | Cb_HandleVrayProgress
  | Cb_HandleVrayFrameComplete
  | Cb_HandleVrayExportProgress
  | Cb_HandleVrayExportComplete
  | Cb_HandleRendermanProgress
  | Cb_HandlePointCloudOutput
  | Cb_HandleOctaneStartFrame
  | Cb_HandleOctaneProgress
  | Cb_HandleCausticVisualizerCurrentFrame
  | Cb_HandleCausticVisualizerTotalPasses
  | Cb_HandleCausticVisualizerCurrentPass

text \<open>Calling a handler for a match.\<close>

fun invoke :: "handler \<Rightarrow> task \<Rightarrow> regex_match \<Rightarrow> plugin \<Rightarrow> error + plugin" where
  "invoke Cb_HandleFumeFXProgress t m s = HandleFumeFXProgress m s"
| "invoke Cb_HandleFatalError t m s = HandleFatalError m s"
| "invoke Cb_HandleUsageError t m s = HandleUsageError t m s"
| "invoke Cb_HandleChunkedProgress1 t m s = HandleChunkedProgress1 t m s"
| "invoke Cb_HandleChunkedProgress2 t m s = Inr (HandleChunkedProgress2 t s)"
| "invoke Cb_HandleStatusMessage t m s = Inr (HandleStatusMessage m s)"
| "invoke Cb_HandleRedshiftGPUAffinityError t m s = HandleRedshiftGPUAffinityError m s"
| "invoke Cb_HandleErrorMessage t m s = HandleErrorMessage t m s"
| "invoke Cb_HandleMentalRayProgress t m s = HandleMentalRayProgress t m s"
| "invoke Cb_HandleMentalRayGathering t m s = Inr (HandleMentalRayGathering m s)"
| "invoke Cb_HandleMentalRayWritingFrame t m s = Inr (HandleMentalRayWritingFrame m s)"
| "invoke Cb_HandleMentalRayComplete t m s = Inr (HandleMentalRayComplete t s)"
| "invoke Cb_HandleProgressMessage1 t m s = HandleProgressMessage1 t m s"
| "invoke Cb_HandleProgressMessage2 t m s = Inr (HandleProgressMessage2 t s)"
| "invoke Cb_HandleProgressMessage3 t m s = HandleProgressMessage3 m s"
| "invoke Cb_HandleVrayMessage t m s = Inr (HandleVrayMessage m s)"
| "invoke Cb_HandleVrayProgress t m s = HandleVrayProgress t m s"
| "invoke Cb_HandleVrayFrameComplete t m s = Inr (HandleVrayFrameComplete s)"
| "invoke Cb_HandleVrayExportProgress t m s = Inr (HandleVrayExportProgress t s)"
| "invoke Cb_HandleVrayExportComplete t m s = Inr (HandleVrayExportComplete s)"
| "invoke Cb_HandleRendermanProgress t m s = HandleRendermanProgress t m s"
| "invoke Cb_HandlePointCloudOutput t m s = Inr (HandlePointCloudOutput s)"
| "invoke Cb_HandleOctaneStartFrame t m s = Inr (HandleOctaneStartFrame s)"
| "invoke Cb_HandleOctaneProgress t m s = HandleOctaneProgress t m s"
| "invoke Cb_HandleCausticVisualizerCurrentFrame t m s = HandleCausticVisualizerCurrentFrame m s"
| "invoke Cb_HandleCausticVisualizerTotalPasses t m s = HandleCausticVisualizerTotalPasses m s"
| "invoke Cb_HandleCausticVisualizerCurrentPass t m s = HandleCausticVisualizerCurrentPass t m s"

text \<open>Modelled from the spec: the output lines of one task are handled one at a time, in
  order; each line calls at most one handler (section 4.2), and a handler that raises
  ends the processing of the task's output (section 7). \<open>process\<close> takes the handler calls
  the lines of a task lead to, and returns the state after the last call that returned,
  with the error that ended the processing, if any.\<close>

fun process :: "task \<Rightarrow> (handler \<times> regex_match) list \<Rightarrow> plugin \<Rightarrow> plugin \<times> error option" where
  "process t [] s = (s, None)"
| "process t ((h, m) # calls) s =
     (case invoke h t m s of
        Inl e \<Rightarrow> (s, Some e)
      | Inr s' \<Rightarrow> process t calls s')"

text \<open>The most recently reported progress: the value of the last \<^verbatim>\<open>SetProgress\<close> call.\<close>

fun last_progress :: "host_call list \<Rightarrow> rat option" where
  "last_progress [] = None"
| "last_progress (c # cs) =
     (case last_progress cs of
        Some p \<Rightarrow> Some p
      | None \<Rightarrow> (case c of SetProgressCall p \<Rightarrow> Some p | _ \<Rightarrow> None))"

definition currentProgressPercent :: "plugin \<Rightarrow> rat option" where
  "currentProgressPercent s = last_progress (hostCalls s)"

subsection \<open>The registry built by \<^verbatim>\<open>InitializeProcess\<close>\<close>

text \<open>A rule is a pattern text with the handler attached to it. The backslash and the
  double quote of a pattern text are written \<open>bs\<close> and \<open>dq\<close>.\<close>

type_synonym rule = "string \<times> handler"

abbreviation bs :: string where
  "bs \<equiv> [CHR 0x5C]"

abbreviation dq :: string where
  "dq \<equiv> [CHR 0x22]"

text \<open>The calls of \<^verbatim>\<open>AddStdoutHandlerCallback\<close> in the order of the source, for the value
  \<^verbatim>\<open>self.Renderer\<close> has after line 102 (the lower-cased plugin-info entry). First the
  rules of lines 96-125, registered before the catch-all.\<close>

definition registered_before_catch_all :: "string \<Rightarrow> rule list" where
  "registered_before_catch_all renderer =
     [(''.*FumeFX: Starting simulation '' @ bs @ ''(([-]?[0-9]+) - ([-]?[0-9]+)'' @ bs @ '').*'',
         Cb_HandleFumeFXProgress),
      (''.*FumeFX: Frame: ([-]?[0-9]+)'', Cb_HandleFumeFXProgress),
      (''.*FumeFX: Memory used: ([0-9]+[a-zA-Z]*)'', Cb_HandleFumeFXProgress),
      (''.*FumeFX: Frame Time: ([0-9]+:[0-9]+'' @ bs @ ''.[0-9]+)'', Cb_HandleFumeFXProgress),
      (''.*FumeFX: Estimated Time: ([0-9]+:[0-9]+:[0-9]+)'', Cb_HandleFumeFXProgress),
      (''FLEXlm error: .*'', Cb_HandleFatalError),
      (''Maya: License was not obtained'', Cb_HandleFatalError),
      (''Usage: Render .*'', Cb_HandleUsageError),
      (''Finished Rendering.*'' @ bs @ ''.([0-9]+)'' @ bs @ ''.[^'' @ bs @ ''.]+'',
         Cb_HandleChunkedProgress1),
      (''.*Finished Rendering.*'', Cb_HandleChunkedProgress2),
      (''.*CUDA_ERROR_UNKNOWN.*'', Cb_HandleFatalError),
      (''.*Failed to init the CUDA driver API.*'', Cb_HandleFatalError),
      (''.*The system does not support the required CUDA compute capabilities.*'',
         Cb_HandleFatalError),
      (''Constructing shading groups|Rendering current frame'', Cb_HandleStatusMessage)]
     @ (if renderer = ''redshift'' then
          [(''redshiftSelectCudaDevices'' @ bs @ ''.mel line '' @ bs @ ''d+: Invalid device id: (''
              @ bs @ ''d+)$'', Cb_HandleRedshiftGPUAffinityError)]
        else [])"

text \<open>The catch-all for errors and warnings, line 128.\<close>

definition catch_all :: rule where
  "catch_all = (''.*Error: .*|.*Warning: .*'', Cb_HandleErrorMessage)"

text \<open>The rules of lines 131-188, registered after the catch-all.\<close>

definition registered_after_catch_all :: "string \<Rightarrow> rule list" where
  "registered_after_catch_all renderer =
     [(''progr: +([0-9]+'' @ bs @ ''.[0-9]+)% +rendered'', Cb_HandleMentalRayProgress),
      (''progr: +([0-9]+'' @ bs @ ''.[0-9]+)% +computing final gather points'',
         Cb_HandleMentalRayGathering),
      (''progr: writing image file .* '' @ bs @ ''(frame ([0-9]+)'' @ bs @ '')'',
         Cb_HandleMentalRayWritingFrame),
      (''progr: +rendering finished'', Cb_HandleMentalRayComplete),
      (bs @ ''| render done'', Cb_HandleProgressMessage2),
      (bs @ ''[PROGRESS'' @ bs @ ''] Completed frame*'', Cb_HandleProgressMessage2),
      (''.*'' @ bs @ ''[PROGRESS'' @ bs @ ''] TURTLE rendering frame 100'' @ bs @ ''.00.*'',
         Cb_HandleProgressMessage2),
      (''.*Render complete.*'', Cb_HandleProgressMessage2),
      (bs @ ''[PROGRESS'' @ bs @ ''] Percentage of rendering done: (.*)'',
         Cb_HandleProgressMessage3),
      (''.*'' @ bs @ ''[PROGRESS'' @ bs @ ''] TURTLE rendering frame ([0-9]+'' @ bs @ ''.[0-9]+).*'',
         Cb_HandleProgressMessage3),
      (''.*RIMG : +([0-9]+)%'', Cb_HandleProgressMessage3)]
     @ (if renderer = ''vray'' \<or> renderer = ''vrayexport'' then
          [(''V-Ray error: .*'', Cb_HandleFatalError),
           (''V-Ray: Building light cache*'', Cb_HandleVrayMessage),
           (''V-Ray: Prepass ([0-9]+) of ([0-9]+)*'', Cb_HandleVrayMessage),
           (''V-Ray: Rendering image*'', Cb_HandleVrayMessage),
           (''V-Ray: +([0-9]+)%'', Cb_HandleVrayProgress),
           (''V-Ray: +([0-9]+) %'', Cb_HandleVrayProgress),
           (''([0-9]+) % completed'', Cb_HandleVrayProgress),
           (''V-Ray: Total frame time'', Cb_HandleVrayFrameComplete),
           (''V-Ray: Updating frame at time ([0-9]+)'', Cb_HandleVrayExportProgress),
           (''V-Ray: Render complete'', Cb_HandleVrayExportComplete)]
        else [])
     @ (if renderer = ''renderman'' \<or> renderer = ''rendermanris''
           \<or> renderer = ''rendermanexport'' then
          [(''rfm Notice: Rendering .* at ([0-9]+)'', Cb_HandleRendermanProgress)]
        else [])
     @ (if renderer = ''3delight'' then
          [(''.*3DL ERROR .*'', Cb_HandleFatalError),
           (bs @ ''['' @ bs @ ''d+'' @ bs @ ''.?'' @ bs @ ''d* '' @ bs @ ''d+'' @ bs @ ''.?''
              @ bs @ ''d* '' @ bs @ ''d+'' @ bs @ ''.?'' @ bs @ ''d*'' @ bs @ '']'',
              Cb_HandlePointCloudOutput)]
        else [])
     @ (if renderer = ''arnold'' \<or> renderer = ''arnoldexport'' then
          [(''Plug-in, '' @ bs @ dq @ ''mtoa'' @ bs @ dq @ '', was not found on MAYA_PLUG_IN_PATH'',
              Cb_HandleFatalError),
           (bs @ ''[mtoa'' @ bs @ ''] Failed batch render'', Cb_HandleFatalError)]
        else [])
     @ (if renderer = ''octanerender'' then
          [(''Octane: starting animation of frame'', Cb_HandleOctaneStartFrame),
           (''Octane: Refreshed image, ([0-9]+) samples per pixel of ([0-9]+)'',
              Cb_HandleOctaneProgress)]
        else [])
     @ (if renderer = ''causticvisualizer'' then
          [(''Executing frame ([0-9]+)'', Cb_HandleCausticVisualizerCurrentFrame),
           (''Rendering ([0-9]+) passes'', Cb_HandleCausticVisualizerTotalPasses),
           (''Rendered to pass ([0-9]+)'', Cb_HandleCausticVisualizerCurrentPass)]
        else [])
     @ (if renderer = ''redshift'' then
          [(''Frame rendering aborted.'', Cb_HandleFatalError),
           (''Rendering was internally aborted'', Cb_HandleFatalError),
           (''Cannot find procedure '' @ dq @ ''rsPreference'' @ dq, Cb_HandleFatalError)]
        else [])
     @ [(bs @ ''[PROGRESS'' @ bs @ ''] ([0-9]+) percent'', Cb_HandleProgressMessage1),
        (''([0-9]+)%'', Cb_HandleProgressMessage1)]"

definition StdoutHandlers :: "string \<Rightarrow> rule list" where
  "StdoutHandlers renderer =
     registered_before_catch_all renderer @ catch_all # registered_after_catch_all renderer"


text \<open>Modelled from the spec: the line dispatcher of the host (section 4.2). It scans the
  rules in registration order and the first rule whose pattern matches the line wins;
  no rule matching is \<open>None\<close>. The regular-expression engine of the host is the
  parameter \<open>matches\<close> (pattern text, line).\<close>

definition dispatch :: "(string \<Rightarrow> string \<Rightarrow> bool) \<Rightarrow> rule list \<Rightarrow> string \<Rightarrow> rule option" where
  "dispatch matches rules line = find (\<lambda>r. matches (fst r) line) rules"

subsection \<open>A reading of the patterns, for concrete lines\<close>

text \<open>Regular expressions over characters, matched with derivatives. They are used to
  run the dispatcher on concrete lines only; the general statements about the dispatcher
  hold for every engine.\<close>

datatype rx =
    Zero                \<comment> \<open>matches nothing\<close>
  | Eps                 \<comment> \<open>the empty text\<close>
  | AnyChar             \<comment> \<open>\<^verbatim>\<open>.\<close>\<close>
  | OneOf string        \<comment> \<open>one of the listed characters\<close>
  | NoneOf string       \<comment> \<open>a character that is not listed\<close>
  | Alt rx rx
  | Seq rx rx
  | Star rx

fun nullable :: "rx \<Rightarrow> bool" where
  "nullable Zero = False"
| "nullable Eps = True"
| "nullable AnyChar = False"
| "nullable (OneOf cs) = False"
| "nullable (NoneOf cs) = False"
| "nullable (Alt r1 r2) = (nullable r1 \<or> nullable r2)"
| "nullable (Seq r1 r2) = (nullable r1 \<and> nullable r2)"
| "nullable (Star r) = True"

text \<open>Alternative and sequence that drop the parts that can no longer match.\<close>

definition alt :: "rx \<Rightarrow> rx \<Rightarrow> rx" where
  "alt r1 r2 = (if r1 = Zero then r2 else if r2 = Zero then r1 else Alt r1 r2)"

definition seq :: "rx \<Rightarrow> rx \<Rightarrow> rx" where
  "seq r1 r2 = (if r1 = Zero then Zero else if r1 = Eps then r2 else Seq r1 r2)"

fun deriv :: "char \<Rightarrow> rx \<Rightarrow> rx" where
  "deriv c Zero = Zero"
| "deriv c Eps = Zero"
| "deriv c AnyChar = Eps"
| "deriv c (OneOf cs) = (if c \<in> set cs then Eps else Zero)"
| "deriv c (NoneOf cs) = (if c \<in> set cs then Zero else Eps)"
| "deriv c (Alt r1 r2) = alt (deriv c r1) (deriv c r2)"
| "deriv c (Seq r1 r2) =
     (if nullable r1 then alt (seq (deriv c r1) r2) (deriv c r2) else seq (deriv c r1) r2)"
| "deriv c (Star r) = seq (deriv c r) (Star r)"

fun rx_matches :: "rx \<Rightarrow> string \<Rightarrow> bool" where
  "rx_matches r [] = nullable r"
| "rx_matches r (c # cs) = rx_matches (deriv c r) cs"

fun lit :: "string \<Rightarrow> rx" where
  "lit [] = Eps"
| "lit (c # cs) = Seq (OneOf [c]) (lit cs)"

fun cat :: "rx list \<Rightarrow> rx" where
  "cat [] = Eps"
| "cat (r # rs) = Seq r (cat rs)"

definition dotstar :: rx where
  "dotstar = Star AnyChar"

definition digit :: rx where
  "digit = OneOf ''0123456789''"

definition letter :: rx where
  "letter = OneOf ''abcdefghijklmnopqrstuvwxyzABCDEFGHIJKLMNOPQRSTUVWXYZ''"

definition plus :: "rx \<Rightarrow> rx" where
  "plus r = Seq r (Star r)"

definition opt :: "rx \<Rightarrow> rx" where
  "opt r = Alt Eps r"

text \<open>A pattern is searched for in the line: it matches when some part of the line
  matches it. \<open>anywhere\<close> and \<open>at_end\<close> (for a pattern ending in \<^verbatim>\<open>$\<close>) give the
  expression the whole line has to match.\<close>

definition anywhere :: "rx list \<Rightarrow> rx" where
  "anywhere rs = Seq dotstar (Seq (cat rs) dotstar)"

definition at_end :: "rx list \<Rightarrow> rx" where
  "at_end rs = Seq dotstar (cat rs)"

text \<open>The reading of every pattern text of the registry.\<close>

definition pattern_readings :: "(string \<times> rx) list" where
  "pattern_readings =
     [(''.*FumeFX: Starting simulation '' @ bs @ ''(([-]?[0-9]+) - ([-]?[0-9]+)'' @ bs @ '').*'',
         anywhere [dotstar, lit ''FumeFX: Starting simulation ('', opt (lit ''-''), plus digit,
                   lit '' - '', opt (lit ''-''), plus digit, lit '')'', dotstar]),
      (''.*FumeFX: Frame: ([-]?[0-9]+)'',
         anywhere [dotstar, lit ''FumeFX: Frame: '', opt (lit ''-''), plus digit]),
      (''.*FumeFX: Memory used: ([0-9]+[a-zA-Z]*)'',
         anywhere [dotstar, lit ''FumeFX: Memory used: '', plus digit, Star letter]),
      (''.*FumeFX: Frame Time: ([0-9]+:[0-9]+'' @ bs @ ''.[0-9]+)'',
         anywhere [dotstar, lit ''FumeFX: Frame Time: '', plus digit, lit '':'', plus digit,
                   lit ''.'', plus digit]),
      (''.*FumeFX: Estimated Time: ([0-9]+:[0-9]+:[0-9]+)'',
         anywhere [dotstar, lit ''FumeFX: Estimated Time: '', plus digit, lit '':'', plus digit,
                   lit '':'', plus digit]),
      (''FLEXlm error: .*'', anywhere [lit ''FLEXlm error: '', dotstar]),
      (''Maya: License was not obtained'', anywhere [lit ''Maya: License was not obtained'']),
      (''Usage: Render .*'', anywhere [lit ''Usage: Render '', dotstar]),
      (''Finished Rendering.*'' @ bs @ ''.([0-9]+)'' @ bs @ ''.[^'' @ bs @ ''.]+'',
         anywhere [lit ''Finished Rendering'', dotstar, lit ''.'', plus digit, lit ''.'',
                   plus (NoneOf (bs @ ''.''))]),
      (''.*Finished Rendering.*'', anywhere [dotstar, lit ''Finished Rendering'', dotstar]),
      (''.*CUDA_ERROR_UNKNOWN.*'', anywhere [dotstar, lit ''CUDA_ERROR_UNKNOWN'', dotstar]),
      (''.*Failed to init the CUDA driver API.*'',
         anywhere [dotstar, lit ''Failed to init the CUDA driver API'', dotstar]),
      (''.*The system does not support the required CUDA compute capabilities.*'',
         anywhere [dotstar,
                   lit ''The system does not support the required CUDA compute capabilities'',
                   dotstar]),
      (''Constructing shading groups|Rendering current frame'',
         anywhere [Alt (lit ''Constructing shading groups'') (lit ''Rendering current frame'')]),
      (''redshiftSelectCudaDevices'' @ bs @ ''.mel line '' @ bs @ ''d+: Invalid device id: (''
          @ bs @ ''d+)$'',
         at_end [lit ''redshiftSelectCudaDevices.mel line '', plus digit,
                 lit '': Invalid device id: '', plus digit]),
      (''.*Error: .*|.*Warning: .*'',
         anywhere [Alt (cat [dotstar, lit ''Error: '', dotstar])
                       (cat [dotstar, lit ''Warning: '', dotstar])]),
      (''progr: +([0-9]+'' @ bs @ ''.[0-9]+)% +rendered'',
         anywhere [lit ''progr:'', plus (lit '' ''), plus digit, lit ''.'', plus digit,
                   lit ''%'', plus (lit '' ''), lit ''rendered'']),
      (''progr: +([0-9]+'' @ bs @ ''.[0-9]+)% +computing final gather points'',
         anywhere [lit ''progr:'', plus (lit '' ''), plus digit, lit ''.'', plus digit,
                   lit ''%'', plus (lit '' ''), lit ''computing final gather points'']),
      (''progr: writing image file .* '' @ bs @ ''(frame ([0-9]+)'' @ bs @ '')'',
         anywhere [lit ''progr: writing image file '', dotstar, lit '' (frame '', plus digit,
                   lit '')'']),
      (''progr: +rendering finished'',
         anywhere [lit ''progr:'', plus (lit '' ''), lit ''rendering finished'']),
      (bs @ ''| render done'', anywhere [lit ''| render done'']),
      (bs @ ''[PROGRESS'' @ bs @ ''] Completed frame*'',
         anywhere [lit ''[PROGRESS] Completed fram'', Star (lit ''e'')]),
      (''.*'' @ bs @ ''[PROGRESS'' @ bs @ ''] TURTLE rendering frame 100'' @ bs @ ''.00.*'',
         anywhere [dotstar, lit ''[PROGRESS] TURTLE rendering frame 100.00'', dotstar]),
      (''.*Render complete.*'', anywhere [dotstar, lit ''Render complete'', dotstar]),
      (bs @ ''[PROGRESS'' @ bs @ ''] Percentage of rendering done: (.*)'',
         anywhere [lit ''[PROGRESS] Percentage of rendering done: '', dotstar]),
      (''.*'' @ bs @ ''[PROGRESS'' @ bs @ ''] TURTLE rendering frame ([0-9]+'' @ bs @ ''.[0-9]+).*'',
         anywhere [dotstar, lit ''[PROGRESS] TURTLE rendering frame '', plus digit, lit ''.'',
                   plus digit, dotstar]),
      (''.*RIMG : +([0-9]+)%'',
         anywhere [dotstar, lit ''RIMG :'', plus (lit '' ''), plus digit, lit ''%'']),
      (''V-Ray error: .*'', anywhere [lit ''V-Ray error: '', dotstar]),
      (''V-Ray: Building light cache*'',
         anywhere [lit ''V-Ray: Building light cach'', Star (lit ''e'')]),
      (''V-Ray: Prepass ([0-9]+) of ([0-9]+)*'',
         anywhere [lit ''V-Ray: Prepass '', plus digit, lit '' of '', Star (plus digit)]),
      (''V-Ray: Rendering image*'', anywhere [lit ''V-Ray: Rendering imag'', Star (lit ''e'')]),
      (''V-Ray: +([0-9]+)%'',
         anywhere [lit ''V-Ray:'', plus (lit '' ''), plus digit, lit ''%'']),
      (''V-Ray: +([0-9]+) %'',
         anywhere [lit ''V-Ray:'', plus (lit '' ''), plus digit, lit '' %'']),
      (''([0-9]+) % completed'', anywhere [plus digit, lit '' % completed'']),
      (''V-Ray: Total frame time'', anywhere [lit ''V-Ray: Total frame time'']),
      (''V-Ray: Updating frame at time ([0-9]+)'',
         anywhere [lit ''V-Ray: Updating frame at time '', plus digit]),
      (''V-Ray: Render complete'', anywhere [lit ''V-Ray: Render complete'']),
      (''rfm Notice: Rendering .* at ([0-9]+)'',
         anywhere [lit ''rfm Notice: Rendering '', dotstar, lit '' at '', plus digit]),
      (''.*3DL ERROR .*'', anywhere [dotstar, lit ''3DL ERROR '', dotstar]),
      (bs @ ''['' @ bs @ ''d+'' @ bs @ ''.?'' @ bs @ ''d* '' @ bs @ ''d+'' @ bs @ ''.?''
          @ bs @ ''d* '' @ bs @ ''d+'' @ bs @ ''.?'' @ bs @ ''d*'' @ bs @ '']'',
         anywhere [lit ''['', plus digit, opt (lit ''.''), Star digit, lit '' '',
                   plus digit, opt (lit ''.''), Star digit, lit '' '',
                   plus digit, opt (lit ''.''), Star digit, lit '']'']),
      (''Plug-in, '' @ bs @ dq @ ''mtoa'' @ bs @ dq @ '', was not found on MAYA_PLUG_IN_PATH'',
         anywhere [lit (''Plug-in, '' @ dq @ ''mtoa'' @ dq
                        @ '', was not found on MAYA_PLUG_IN_PATH'')]),
      (bs @ ''[mtoa'' @ bs @ ''] Failed batch render'', anywhere [lit ''[mtoa] Failed batch render'']),
      (''Octane: starting animation of frame'', anywhere [lit ''Octane: starting animation of frame'']),
      (''Octane: Refreshed image, ([0-9]+) samples per pixel of ([0-9]+)'',
         anywhere [lit ''Octane: Refreshed image, '', plus digit, lit '' samples per pixel of '',
                   plus digit]),
      (''Executing frame ([0-9]+)'', anywhere [lit ''Executing frame '', plus digit]),
      (''Rendering ([0-9]+) passes'', anywhere [lit ''Rendering '', plus digit, lit '' passes'']),
      (''Rendered to pass ([0-9]+)'', anywhere [lit ''Rendered to pass '', plus digit]),
      (''Frame rendering aborted.'', anywhere [lit ''Frame rendering aborted'', AnyChar]),
      (''Rendering was internally aborted'', anywhere [lit ''Rendering was internally aborted'']),
      (''Cannot find procedure '' @ dq @ ''rsPreference'' @ dq,
         anywhere [lit (''Cannot find procedure '' @ dq @ ''rsPreference'' @ dq)]),
      (bs @ ''[PROGRESS'' @ bs @ ''] ([0-9]+) percent'',
         anywhere [lit ''[PROGRESS] '', plus digit, lit '' percent'']),
      (''([0-9]+)%'', anywhere [plus digit, lit ''%''])]"

text \<open>The engine for concrete lines: the line matches the reading of the pattern.\<close>

definition regex_search :: "string \<Rightarrow> string \<Rightarrow> bool" where
  "regex_search pattern line =
     (case map_of pattern_readings pattern of
        None \<Rightarrow> False
      | Some r \<Rightarrow> rx_matches r line)"

subsection \<open>The known-fatal texts as a table\<close>

text \<open>The tests of the chain in \<open>ignoreError\<close>, in the order of the source: one row per
  branch, holding the texts that must all occur in the message for the branch to be
  taken.\<close>

definition known_fatal :: "string list list" where
  "known_fatal =
     [[''could not get a license''],
      [''This scene does not have any renderable cameras''],
      [''Error: Camera'', ''does not exist''],
      [''Warning: The post-processing failed while attempting to rename file''],
      [''Error: Failed to open IFF file for reading''],
      [''Error: An exception has occurred, rendering aborted.''],
      [''Cannot open project''],
      [''Could not open file. :''],
      [''Error reading file. :''],
      [''Error: Scene was not loaded properly, please check the scene name''],
      [''Error: Graphics card capabilities are insufficient for rendering.''],
      [''Error: The attribute '', ''was locked in a referenced file, and cannot be unlocked.''],
      [''Not enough storage is available to process this command.''],
      [''Error: (Mayatomr) : mental ray has stopped with errors, see the log''],
      [''Warning: (Mayatomr.Scene) : no render camera found, final scene will be incomplete and can't be rendered''],
      [''mental ray: out of memory''],
      [''The specified module could not be found.''],
      [''Error: (Mayatomr.Export) : mental ray startup failed with errors''],
      [''Number of arguments on call to preLayerScript does not match number of parameters in procedure definition.''],
      [''Error: rman Fatal:''],
      [''rman Error:''],
      [''Error: There was a fatal error rendering the scene.''],
      [''Could not obtain a license''],
      [''Could not read V-Ray environment variable''],
      [''error 101003:'', ''can't create file''],
      [''can't create file (No such file or directory)''],
      [''Fatal Error:''],
      [''Error writing render region to raw image file.''],
      [''Error: OctaneRender is not activated!''],
      [''Error: R12001'']]"

text \<open>A message contains a known-fatal text when all texts of some row occur in it.\<close>

definition known_fatal_hit :: "string \<Rightarrow> bool" where
  "known_fatal_hit errorMessage =
     list_ex (\<lambda>subs. list_all (\<lambda>sub. find_str errorMessage sub \<noteq> -1) subs) known_fatal"

subsection \<open>Concrete inputs\<close>

text \<open>A task with the given frame range, no plugin-info or configuration entry and an
  empty command line.\<close>

definition example_task :: "int \<Rightarrow> int \<Rightarrow> task" where
  "example_task startFrame endFrame =
     \<lparr> StartFrame = startFrame, EndFrame = endFrame, BooleanPluginInfo = Map.empty,
       BooleanConfig = Map.empty, RenderArgumentText = [] \<rparr>"

text \<open>The same task with the plugin-info entry \<^verbatim>\<open>StrictErrorChecking\<close> present.\<close>

definition strict_task :: "bool \<Rightarrow> task" where
  "strict_task b = (example_task 1 10)\<lparr>BooleanPluginInfo := [''StrictErrorChecking'' \<mapsto> b]\<rparr>"

text \<open>A match whose groups are the given texts.\<close>

definition example_match :: "string list \<Rightarrow> regex_match" where
  "example_match gs = \<lparr> Groups = gs, PreviousStdoutLine = [] \<rparr>"

text \<open>Handler calls of a few output lines: two completion lines without frame number, and
  a V-Ray frame followed by an error line and a completion line.\<close>

definition two_lines :: "(handler \<times> regex_match) list" where
  "two_lines = [(Cb_HandleChunkedProgress2, example_match [''Finished Rendering'']),
                (Cb_HandleChunkedProgress2, example_match [''Finished Rendering''])]"

definition vray_lines :: "(handler \<times> regex_match) list" where
  "vray_lines = [(Cb_HandleVrayMessage, example_match [''V-Ray: Rendering image'']),
                 (Cb_HandleVrayFrameComplete, example_match [''V-Ray: Total frame time'']),
                 (Cb_HandleFatalError, example_match [''V-Ray error: x'']),
                 (Cb_HandleChunkedProgress2, example_match [''Finished Rendering''])]"

section \<open>Properties\<close>

subsection \<open>Exit-code classification\<close>

text \<open>
  C3. Exit code 0 is a success whatever the ignore-211 flag says: the check returns
  normally and reports nothing. Exit code 206 fails the render with the fixed message
  about the command line, the project directory and a drive root as output directory.
  Exit code 211 with the flag set returns normally and only logs a note; without the flag
  it fails. Every other non-zero code N fails with the message
  "Renderer returned non-zero error code N. Check the renderer's output.".
\<close>

theorem CheckExitCode_classification:
  "CheckExitCode 0 s = Inr s
   \<and> CheckExitCode 206 s = Inl (FailRender exit206_message)
   \<and> (IgnoreError211 s \<longrightarrow> CheckExitCode 211 s = Inr (LogInfo exit211_note s))
   \<and> (\<not> IgnoreError211 s \<longrightarrow>
        CheckExitCode 211 s = Inl (FailRender (nonzero_message 211)))
   \<and> (n \<noteq> 0 \<and> n \<noteq> 206 \<and> n \<noteq> 211 \<longrightarrow>
        CheckExitCode n s = Inl (FailRender (nonzero_message n)))"
  by (simp add: CheckExitCode_def)

theorem CheckExitCode_classification_witness:
  "CheckExitCode 211 (new_plugin\<lparr>IgnoreError211 := True\<rparr>)
     = Inr (LogInfo exit211_note (new_plugin\<lparr>IgnoreError211 := True\<rparr>))
   \<and> CheckExitCode 211 new_plugin
     = Inl (FailRender ''Renderer returned non-zero error code 211. Check the renderer's output.'')
   \<and> CheckExitCode 42 new_plugin
     = Inl (FailRender ''Renderer returned non-zero error code 42. Check the renderer's output.'')"
  using CheckExitCode_classification [of "new_plugin\<lparr>IgnoreError211 := True\<rparr>" 42]
    CheckExitCode_classification [of new_plugin 42]
  by (simp add: new_plugin_def nonzero_message_def str_int_def str_nat.simps)

subsection \<open>Generic completion lines\<close>




subsection \<open>Concrete evaluations used below\<close>

lemma py_int_3: "py_int ''3'' = Inr 3"
  by (simp add: py_int_def digit_of_def)

lemma find_cannot_load_scene:
  "find_str ''Error: Cannot load scene'' ''Cannot load scene'' = 7"
  by (simp add: find_str_def)

lemma find_license:
  "find_str ''Error: could not get a license'' ''could not get a license'' = 7"
  "find_str ''Error: could not get a license'' ''Cannot load scene'' = -1"
  by (simp_all add: find_str_def)

subsection \<open>Completion lines that carry a frame number\<close>

text \<open>
  C2 (as amended). \<open>HandleChunkedProgress1\<close>, called with the frame number f read from
  group 1: when start \<le> f \<le> end it reports the progress
  100 * (f - start + 1) div (end - start + 1), with Python's floor division \<^verbatim>\<open>//\<close>. When
  end - start + 1 = 0, that is end = start - 1, it reports nothing and changes nothing,
  and it does not fail. The guard tests only for zero: when end < start - 1 the same
  formula is evaluated and reported.
\<close>

theorem HandleChunkedProgress1_percent:
  "(py_int (GetRegexMatch m 1) = Inr f \<and> StartFrame t \<le> f \<and> f \<le> EndFrame t \<longrightarrow>
      HandleChunkedProgress1 t m s =
        Inr (SetProgress (of_int (100 * (f - StartFrame t + 1)
                                  div (EndFrame t - StartFrame t + 1))) s))
   \<and> (EndFrame t - StartFrame t + 1 = 0 \<longrightarrow> HandleChunkedProgress1 t m s = Inr s)
   \<and> (py_int (GetRegexMatch m 1) = Inr f \<and> EndFrame t < StartFrame t - 1 \<longrightarrow>
      HandleChunkedProgress1 t m s =
        Inr (SetProgress (of_int (100 * (f - StartFrame t + 1)
                                  div (EndFrame t - StartFrame t + 1))) s))"
  by (auto simp add: HandleChunkedProgress1_def Let_def)

theorem HandleChunkedProgress1_percent_witness:
  "HandleChunkedProgress1 (example_task 1 10)
     (example_match [''Finished Rendering img.3.png'', ''3'']) new_plugin
     = Inr (SetProgress 30 new_plugin)
   \<and> HandleChunkedProgress1 (example_task 5 4)
     (example_match [''Finished Rendering img.3.png'', ''3'']) new_plugin
     = Inr new_plugin
   \<and> HandleChunkedProgress1 (example_task 9 3)
     (example_match [''Finished Rendering img.3.png'', ''3'']) new_plugin
     = Inr (SetProgress 100 new_plugin)"
  using HandleChunkedProgress1_percent
      [of "example_match [''Finished Rendering img.3.png'', ''3'']" 3 "example_task 1 10"
        new_plugin]
    HandleChunkedProgress1_percent
      [of "example_match [''Finished Rendering img.3.png'', ''3'']" 3 "example_task 5 4"
        new_plugin]
    HandleChunkedProgress1_percent
      [of "example_match [''Finished Rendering img.3.png'', ''3'']" 3 "example_task 9 3"
        new_plugin]
  by (simp add: example_task_def example_match_def GetRegexMatch_def py_int_3)

text \<open>C2 as stated fails: with start 5 and end 3 the task has end < start, and a
  completion line for frame 3 still reports a progress (of 100).\<close>

theorem degenerate_range_counterexample:
  "EndFrame (example_task 5 3) < StartFrame (example_task 5 3)
   \<and> HandleChunkedProgress1 (example_task 5 3)
       (example_match [''Finished Rendering img.3.png'', ''3'']) new_plugin
       = Inr (SetProgress 100 new_plugin)
   \<and> SetProgress 100 new_plugin \<noteq> new_plugin"
  by (simp add: HandleChunkedProgress1_def example_task_def example_match_def
      GetRegexMatch_def py_int_3 SetProgress_def new_plugin_def)

subsection \<open>The catch-all for errors and warnings\<close>

lemma ignoreError_known_fatal: "ignoreError msg = (\<not> known_fatal_hit msg)"
proof -
  have chain: "\<And>a b. (if a then False else b) = (\<not> a \<and> b)"
    by simp
  show ?thesis
    unfolding ignoreError_def known_fatal_hit_def known_fatal_def
    by (simp only: chain list_ex_Nil_iff list_ex_Cons_iff list_all_Nil_iff list_all_Cons_iff
        simp_thms de_Morgan_disj)
qed

lemma license_is_known_fatal:
  "find_str msg ''could not get a license'' \<noteq> -1 \<Longrightarrow> known_fatal_hit msg"
  unfolding known_fatal_hit_def known_fatal_def
  by (simp only: list_ex_Cons_iff list_all_Nil_iff list_all_Cons_iff simp_thms)

text \<open>
  C4. When the text matched by the catch-all contains "Cannot load scene",
  \<open>HandleErrorMessage\<close> fails the render with that text, for every task, so whether
  strict error checking is on or off: the test comes first.
\<close>

theorem cannot_load_scene_always_fatal:
  "find_str (GetRegexMatch m 0) ''Cannot load scene'' \<noteq> -1 \<Longrightarrow>
   HandleErrorMessage t m s = Inl (FailRender (GetRegexMatch m 0))"
  by (simp add: HandleErrorMessage_def Let_def)

theorem cannot_load_scene_always_fatal_witness:
  "GetBooleanPluginInfoEntryWithDefault (strict_task True) ''StrictErrorChecking'' True
   \<and> \<not> GetBooleanPluginInfoEntryWithDefault (strict_task False) ''StrictErrorChecking'' True
   \<and> HandleErrorMessage (strict_task True) (example_match [''Error: Cannot load scene''])
        new_plugin = Inl (FailRender ''Error: Cannot load scene'')
   \<and> HandleErrorMessage (strict_task False) (example_match [''Error: Cannot load scene''])
        new_plugin = Inl (FailRender ''Error: Cannot load scene'')"
  using cannot_load_scene_always_fatal
      [of "example_match [''Error: Cannot load scene'']" "strict_task True" new_plugin]
    cannot_load_scene_always_fatal
      [of "example_match [''Error: Cannot load scene'']" "strict_task False" new_plugin]
  by (simp add: example_match_def GetRegexMatch_def find_cannot_load_scene
      GetBooleanPluginInfoEntryWithDefault_def strict_task_def)

text \<open>
  C5 (as amended). For a text matched by the catch-all that does not contain
  "Cannot load scene": if it contains "could not get a license" and strict error checking
  is on, \<open>HandleErrorMessage\<close> fails the render; if strict error checking is off, whatever
  the text, it only logs the warning that the message is ignored and returns normally.
\<close>

theorem strict_checking_toggle:
  "find_str (GetRegexMatch m 0) ''Cannot load scene'' = -1 \<longrightarrow>
     (GetBooleanPluginInfoEntryWithDefault t ''StrictErrorChecking'' True
        \<and> find_str (GetRegexMatch m 0) ''could not get a license'' \<noteq> -1 \<longrightarrow>
      HandleErrorMessage t m s = Inl (FailRender (strict_on_failure (GetRegexMatch m 0))))
     \<and> (\<not> GetBooleanPluginInfoEntryWithDefault t ''StrictErrorChecking'' True \<longrightarrow>
      HandleErrorMessage t m s = Inr (LogWarning strict_off_warning s))"
  by (auto simp add: HandleErrorMessage_def Let_def ignoreError_known_fatal
      dest: license_is_known_fatal)

theorem strict_checking_toggle_witness:
  "HandleErrorMessage (strict_task True) (example_match [''Error: could not get a license''])
        new_plugin = Inl (FailRender (strict_on_failure ''Error: could not get a license''))
   \<and> HandleErrorMessage (strict_task False) (example_match [''Error: could not get a license''])
        new_plugin = Inr (LogWarning strict_off_warning new_plugin)"
  using strict_checking_toggle
      [of "example_match [''Error: could not get a license'']" "strict_task True" new_plugin]
    strict_checking_toggle
      [of "example_match [''Error: could not get a license'']" "strict_task False" new_plugin]
  by (simp add: example_match_def GetRegexMatch_def find_license
      GetBooleanPluginInfoEntryWithDefault_def strict_task_def)

text \<open>C5 as stated fails in its last part: with strict error checking off, the
  catch-all match "Error: Cannot load scene" is not tolerated, it fails the render.\<close>

theorem strict_off_not_always_tolerated_counterexample:
  "\<not> GetBooleanPluginInfoEntryWithDefault (strict_task False) ''StrictErrorChecking'' True
   \<and> HandleErrorMessage (strict_task False) (example_match [''Error: Cannot load scene''])
        new_plugin = Inl (FailRender ''Error: Cannot load scene'')"
  by (simp add: HandleErrorMessage_def Let_def example_match_def GetRegexMatch_def
      find_cannot_load_scene GetBooleanPluginInfoEntryWithDefault_def strict_task_def)

text \<open>
  C10. When the plugin-info entry "StrictErrorChecking" is absent, the handler reads it
  as True, and a text matched by the catch-all that contains a known-fatal text fails
  the render: with the text itself as reason when it contains "Cannot load scene", with
  the strict-checking failure message otherwise.
\<close>

theorem strict_checking_default:
  "BooleanPluginInfo t ''StrictErrorChecking'' = None \<Longrightarrow>
   GetBooleanPluginInfoEntryWithDefault t ''StrictErrorChecking'' True
   \<and> (known_fatal_hit (GetRegexMatch m 0) \<longrightarrow>
        HandleErrorMessage t m s =
          Inl (FailRender (if find_str (GetRegexMatch m 0) ''Cannot load scene'' \<noteq> -1
                           then GetRegexMatch m 0
                           else strict_on_failure (GetRegexMatch m 0))))"
  by (simp add: HandleErrorMessage_def Let_def ignoreError_known_fatal
      GetBooleanPluginInfoEntryWithDefault_def)

theorem strict_checking_default_witness:
  "BooleanPluginInfo (example_task 1 10) ''StrictErrorChecking'' = None
   \<and> known_fatal_hit ''Error: could not get a license''
   \<and> HandleErrorMessage (example_task 1 10) (example_match [''Error: could not get a license''])
        new_plugin = Inl (FailRender (strict_on_failure ''Error: could not get a license''))"
proof -
  have a: "BooleanPluginInfo (example_task 1 10) ''StrictErrorChecking'' = None"
    by (simp add: example_task_def)
  have b: "known_fatal_hit ''Error: could not get a license''"
    by (rule license_is_known_fatal) (simp add: find_license)
  show ?thesis
    using a b strict_checking_default
      [OF a, of "example_match [''Error: could not get a license'']" new_plugin]
    by (simp add: example_match_def GetRegexMatch_def find_license)
qed

subsection \<open>Duplicate completion of a frame\<close>




subsection \<open>The finished-frame count\<close>

lemma count_SetProgress [simp]:
  "FinishedFrameCount (SetProgress p s) = FinishedFrameCount s"
  by (simp add: SetProgress_def)

lemma count_SetStatusMessage [simp]:
  "FinishedFrameCount (SetStatusMessage x s) = FinishedFrameCount s"
  by (simp add: SetStatusMessage_def)

lemma count_LogWarning [simp]:
  "FinishedFrameCount (LogWarning x s) = FinishedFrameCount s"
  by (simp add: LogWarning_def)

lemma count_SuppressThisLine [simp]:
  "FinishedFrameCount (SuppressThisLine s) = FinishedFrameCount s"
  by (simp add: SuppressThisLine_def)

lemma count_FumeFX:
  "HandleFumeFXProgress m s = Inr s' \<Longrightarrow> FinishedFrameCount s' = FinishedFrameCount s"
  by (auto simp add: HandleFumeFXProgress_def Let_def split: if_splits sum.splits)

lemma count_ChunkedProgress1:
  "HandleChunkedProgress1 t m s = Inr s' \<Longrightarrow> FinishedFrameCount s' = FinishedFrameCount s"
  by (auto simp add: HandleChunkedProgress1_def Let_def split: if_splits sum.splits)

lemma count_ErrorMessage:
  "HandleErrorMessage t m s = Inr s' \<Longrightarrow> FinishedFrameCount s' = FinishedFrameCount s"
  by (auto simp add: HandleErrorMessage_def Let_def split: if_splits)

lemma count_MentalRayProgress:
  "HandleMentalRayProgress t m s = Inr s' \<Longrightarrow> FinishedFrameCount s' = FinishedFrameCount s"
  by (auto simp add: HandleMentalRayProgress_def Let_def split: if_splits sum.splits)

lemma count_ProgressMessage1:
  "HandleProgressMessage1 t m s = Inr s' \<Longrightarrow> FinishedFrameCount s' = FinishedFrameCount s"
  by (auto simp add: HandleProgressMessage1_def Let_def split: if_splits sum.splits)

lemma count_ProgressMessage3:
  "HandleProgressMessage3 m s = Inr s' \<Longrightarrow> FinishedFrameCount s' = FinishedFrameCount s"
  by (auto simp add: HandleProgressMessage3_def split: sum.splits)

lemma count_VrayProgress:
  "HandleVrayProgress t m s = Inr s' \<Longrightarrow> FinishedFrameCount s' = FinishedFrameCount s"
  by (auto simp add: HandleVrayProgress_def Let_def split: if_splits sum.splits)

lemma count_RendermanProgress:
  "HandleRendermanProgress t m s = Inr s' \<Longrightarrow> FinishedFrameCount s' = FinishedFrameCount s"
  by (auto simp add: HandleRendermanProgress_def Let_def split: if_splits sum.splits)

lemma count_OctaneProgress:
  "HandleOctaneProgress t m s = Inr s' \<Longrightarrow> FinishedFrameCount s' = FinishedFrameCount s"
  by (auto simp add: HandleOctaneProgress_def Let_def split: if_splits sum.splits)

lemma count_CausticCurrentFrame:
  "HandleCausticVisualizerCurrentFrame m s = Inr s' \<Longrightarrow>
   FinishedFrameCount s' = FinishedFrameCount s"
  by (auto simp add: HandleCausticVisualizerCurrentFrame_def split: sum.splits)

lemma count_CausticTotalPasses:
  "HandleCausticVisualizerTotalPasses m s = Inr s' \<Longrightarrow>
   FinishedFrameCount s' = FinishedFrameCount s"
  by (auto simp add: HandleCausticVisualizerTotalPasses_def split: sum.splits)

lemma count_CausticCurrentPass:
  "HandleCausticVisualizerCurrentPass t m s = Inr s' \<Longrightarrow>
   FinishedFrameCount s' = FinishedFrameCount s"
  by (auto simp add: HandleCausticVisualizerCurrentPass_def Let_def split: if_splits sum.splits)

lemma count_ChunkedProgress2:
  "FinishedFrameCount (HandleChunkedProgress2 t s) = FinishedFrameCount s + 1"
  by (simp add: HandleChunkedProgress2_def Let_def)

lemma count_ProgressMessage2:
  "FinishedFrameCount (HandleProgressMessage2 t s) = FinishedFrameCount s + 1"
  by (simp add: HandleProgressMessage2_def Let_def)

lemma count_OctaneStartFrame:
  "FinishedFrameCount (HandleOctaneStartFrame s) = FinishedFrameCount s + 1"
  by (simp add: HandleOctaneStartFrame_def)

lemma count_MentalRayComplete:
  "FinishedFrameCount (HandleMentalRayComplete t s) =
     (if SkipNextFrame s then FinishedFrameCount s else FinishedFrameCount s + 1)"
  by (simp add: HandleMentalRayComplete_def Let_def)

lemma count_VrayFrameComplete:
  "FinishedFrameCount (HandleVrayFrameComplete s) =
     (if vrayRenderingImage s then FinishedFrameCount s + 1 else FinishedFrameCount s)"
  by (simp add: HandleVrayFrameComplete_def)

lemma count_VrayExportProgress:
  "FinishedFrameCount (HandleVrayExportProgress t s) =
     (if Renderer s = ''vrayexport'' then FinishedFrameCount s + 1 else FinishedFrameCount s)"
  by (simp add: HandleVrayExportProgress_def Let_def)

lemma count_unchanged_pure:
  "FinishedFrameCount (HandleStatusMessage m s) = FinishedFrameCount s"
  "FinishedFrameCount (HandleMentalRayGathering m s) = FinishedFrameCount s"
  "FinishedFrameCount (HandleMentalRayWritingFrame m s) = FinishedFrameCount s"
  "FinishedFrameCount (HandleVrayMessage m s) = FinishedFrameCount s"
  "FinishedFrameCount (HandleVrayExportComplete s) = FinishedFrameCount s"
  "FinishedFrameCount (HandlePointCloudOutput s) = FinishedFrameCount s"
  by (simp_all add: HandleStatusMessage_def HandleMentalRayGathering_def
      HandleMentalRayWritingFrame_def HandleVrayMessage_def HandleVrayExportComplete_def
      HandlePointCloudOutput_def Let_def)

lemma invoke_count:
  assumes "invoke h t m s = Inr s'"
  shows "FinishedFrameCount s' = FinishedFrameCount s
         \<or> FinishedFrameCount s' = FinishedFrameCount s + 1"
  using assms
  by (cases h)
    (auto simp add: HandleFatalError_def HandleUsageError_def HandleRedshiftGPUAffinityError_def
      count_ChunkedProgress2 count_ProgressMessage2 count_OctaneStartFrame
      count_MentalRayComplete count_VrayFrameComplete count_VrayExportProgress
      count_unchanged_pure Let_def
      dest: count_FumeFX count_ChunkedProgress1 count_ErrorMessage count_MentalRayProgress
        count_ProgressMessage1 count_ProgressMessage3 count_VrayProgress count_RendermanProgress
        count_OctaneProgress count_CausticCurrentFrame count_CausticTotalPasses
        count_CausticCurrentPass
      split: if_splits)

lemma process_count: "FinishedFrameCount s \<le> FinishedFrameCount (fst (process t calls s))"
proof (induction calls arbitrary: s)
  case Nil
  show ?case by simp
next
  case (Cons c calls)
  obtain h m where c: "c = (h, m)" by (cases c)
  show ?case
  proof (cases "invoke h t m s")
    case (Inl e)
    then show ?thesis using c by simp
  next
    case (Inr s')
    from invoke_count [OF Inr] have "FinishedFrameCount s \<le> FinishedFrameCount s'" by auto
    also have "\<dots> \<le> FinishedFrameCount (fst (process t calls s'))" by (rule Cons.IH)
    finally show ?thesis using c Inr by simp
  qed
qed

lemma process_generic_completion:
  "process t (map (\<lambda>m. (Cb_HandleChunkedProgress2, m)) ms) s = (s', e) \<Longrightarrow>
   e = None \<and> FinishedFrameCount s' = FinishedFrameCount s + int (length ms)"
  by (induction ms arbitrary: s) (auto simp add: count_ChunkedProgress2)

text \<open>
  C8. \<open>PreRenderTasks\<close> sets \<open>FinishedFrameCount\<close> to 0 at the start of the task, and it is
  the only place that resets it: every handler call that returns leaves the count
  unchanged or adds 1 to it. So over any sequence of handler calls of a task the count
  never decreases, also when a handler ends the processing by raising. A sequence of
  completion lines without frame number (\<open>HandleChunkedProgress2\<close>) never raises and
  adds exactly 1 per line.
\<close>

theorem FinishedFrameCount_monotone:
  "FinishedFrameCount (PreRenderTasks s) = 0
   \<and> (invoke h t m s = Inr s' \<longrightarrow>
        FinishedFrameCount s' = FinishedFrameCount s
        \<or> FinishedFrameCount s' = FinishedFrameCount s + 1)
   \<and> FinishedFrameCount s \<le> FinishedFrameCount (fst (process t calls s))
   \<and> process t (map (\<lambda>m. (Cb_HandleChunkedProgress2, m)) ms) s
       = (fst (process t (map (\<lambda>m. (Cb_HandleChunkedProgress2, m)) ms) s), None)
   \<and> FinishedFrameCount (fst (process t (map (\<lambda>m. (Cb_HandleChunkedProgress2, m)) ms) s))
       = FinishedFrameCount s + int (length ms)"
proof -
  obtain s2 e where p: "process t (map (\<lambda>m. (Cb_HandleChunkedProgress2, m)) ms) s = (s2, e)"
    by (cases "process t (map (\<lambda>m. (Cb_HandleChunkedProgress2, m)) ms) s")
  from process_generic_completion [OF p] p
  have g: "process t (map (\<lambda>m. (Cb_HandleChunkedProgress2, m)) ms) s
       = (fst (process t (map (\<lambda>m. (Cb_HandleChunkedProgress2, m)) ms) s), None)
   \<and> FinishedFrameCount (fst (process t (map (\<lambda>m. (Cb_HandleChunkedProgress2, m)) ms) s))
       = FinishedFrameCount s + int (length ms)"
    by simp
  have r: "FinishedFrameCount (PreRenderTasks s) = 0"
    by (simp add: PreRenderTasks_def)
  from r g invoke_count [of h t m s s'] process_count [of s t calls] show ?thesis
    by blast
qed

theorem FinishedFrameCount_monotone_witness:
  "invoke Cb_HandleVrayMessage (example_task 1 10) (example_match [''V-Ray: Rendering image''])
     (PreRenderTasks new_plugin)
     = Inr (SetStatusMessage ''V-Ray: Rendering image''
             ((PreRenderTasks new_plugin)\<lparr>vrayRenderingImage := True\<rparr>))
   \<and> FinishedFrameCount (SetStatusMessage ''V-Ray: Rendering image''
             ((PreRenderTasks new_plugin)\<lparr>vrayRenderingImage := True\<rparr>)) = 0
   \<and> snd (process (example_task 1 10) vray_lines (PreRenderTasks new_plugin))
       = Some (FailRender ''V-Ray error: x'')
   \<and> FinishedFrameCount (fst (process (example_task 1 10) vray_lines (PreRenderTasks new_plugin)))
       = 1
   \<and> FinishedFrameCount (fst (process (example_task 1 10) two_lines (PreRenderTasks new_plugin)))
       = 2"
  using FinishedFrameCount_monotone [where s = "PreRenderTasks new_plugin"
      and h = Cb_HandleVrayMessage and t = "example_task 1 10"
      and m = "example_match [''V-Ray: Rendering image'']"
      and s' = "SetStatusMessage ''V-Ray: Rendering image''
             ((PreRenderTasks new_plugin)\<lparr>vrayRenderingImage := True\<rparr>)"
      and calls = vray_lines
      and ms = "[example_match [''Finished Rendering''], example_match [''Finished Rendering'']]"]
  by (simp add: two_lines_def vray_lines_def HandleVrayMessage_def Let_def example_match_def
      GetRegexMatch_def find_str_def HandleVrayFrameComplete_def HandleFatalError_def
      SetStatusMessage_def PreRenderTasks_def new_plugin_def)

subsection \<open>The range of the reported progress\<close>

lemma last_progress_snoc [simp]: "last_progress (cs @ [SetProgressCall p]) = Some p"
  by (induction cs) simp_all

lemma percent_bounds:
  fixes a n :: int and q :: rat
  assumes "0 < n" and "0 \<le> a" and "a < n" and "0 \<le> q" and "q \<le> 100"
  shows "0 \<le> (q + of_int (a * 100)) / of_int n" and "(q + of_int (a * 100)) / of_int n \<le> 100"
proof -
  have n: "(0::rat) < of_int n" using assms(1) by simp
  have a: "(0::rat) \<le> of_int (a * 100)" using assms(2) by simp
  show "0 \<le> (q + of_int (a * 100)) / of_int n"
    using n a assms(4) by (simp add: zero_le_divide_iff)
  have "a + 1 \<le> n" using assms(3) by simp
  then have "(of_int (a + 1) :: rat) \<le> of_int n" by (simp only: of_int_le_iff)
  then have "(of_int a :: rat) * 100 + 100 \<le> 100 * of_int n" by simp
  then have "q + of_int (a * 100) \<le> 100 * of_int n" using assms(5) by simp
  then show "(q + of_int (a * 100)) / of_int n \<le> 100"
    using n by (simp add: pos_divide_le_eq)
qed

text \<open>
  C9 (as amended). In a task with start \<le> end, when fewer frames than the task has are
  counted as finished (0 \<le> FinishedFrameCount < end - start + 1), the progress reported
  by a completion line without frame number (\<open>HandleChunkedProgress2\<close>) lies in [0, 100],
  and so does the progress reported by a generic percent line (\<open>HandleProgressMessage1\<close>)
  whose own percentage lies in [0, 100]. No handler clamps the value it reports.
\<close>

theorem progress_within_bounds:
  "StartFrame t \<le> EndFrame t \<and> 0 \<le> FinishedFrameCount s
     \<and> FinishedFrameCount s < EndFrame t - StartFrame t + 1 \<longrightarrow>
   currentProgressPercent (HandleChunkedProgress2 t s)
       = Some (of_int (100 * (FinishedFrameCount s + 1)) / of_int (EndFrame t - StartFrame t + 1))
   \<and> 0 \<le> (of_int (100 * (FinishedFrameCount s + 1)) / of_int (EndFrame t - StartFrame t + 1) :: rat)
   \<and> (of_int (100 * (FinishedFrameCount s + 1)) / of_int (EndFrame t - StartFrame t + 1) :: rat) \<le> 100
   \<and> (py_float (GetRegexMatch m 1) = Inr q \<and> 0 \<le> q \<and> q \<le> 100 \<longrightarrow>
        HandleProgressMessage1 t m s
          = Inr (SetProgress ((q + of_int (FinishedFrameCount s * 100))
                              / of_int (EndFrame t - StartFrame t + 1)) s)
        \<and> currentProgressPercent (SetProgress ((q + of_int (FinishedFrameCount s * 100))
                              / of_int (EndFrame t - StartFrame t + 1)) s)
          = Some ((q + of_int (FinishedFrameCount s * 100)) / of_int (EndFrame t - StartFrame t + 1))
        \<and> 0 \<le> (q + of_int (FinishedFrameCount s * 100)) / of_int (EndFrame t - StartFrame t + 1)
        \<and> (q + of_int (FinishedFrameCount s * 100)) / of_int (EndFrame t - StartFrame t + 1) \<le> 100)"
proof (intro impI, elim conjE)
  assume r: "StartFrame t \<le> EndFrame t" and c0: "0 \<le> FinishedFrameCount s"
    and c1: "FinishedFrameCount s < EndFrame t - StartFrame t + 1"
  let ?n = "EndFrame t - StartFrame t + 1"
  let ?c = "FinishedFrameCount s"
  have n: "0 < ?n" using r by simp
  have cur: "currentProgressPercent (HandleChunkedProgress2 t s)
       = Some (of_int (100 * (?c + 1)) / of_int ?n)"
    using n by (simp add: currentProgressPercent_def HandleChunkedProgress2_def Let_def
        SetProgress_def)
  have eq: "(of_int (100 * (?c + 1)) / of_int ?n :: rat) = (100 + of_int (?c * 100)) / of_int ?n"
    by (simp add: algebra_simps)
  have lo: "0 \<le> (of_int (100 * (?c + 1)) / of_int ?n :: rat)"
    unfolding eq using percent_bounds(1) [OF n c0 c1, of 100] by simp
  have hi: "(of_int (100 * (?c + 1)) / of_int ?n :: rat) \<le> 100"
    unfolding eq using percent_bounds(2) [OF n c0 c1, of 100] by simp
  have pm: "py_float (GetRegexMatch m 1) = Inr q \<and> 0 \<le> q \<and> q \<le> 100 \<longrightarrow>
        HandleProgressMessage1 t m s
          = Inr (SetProgress ((q + of_int (?c * 100)) / of_int ?n) s)
        \<and> currentProgressPercent (SetProgress ((q + of_int (?c * 100)) / of_int ?n) s)
          = Some ((q + of_int (?c * 100)) / of_int ?n)
        \<and> 0 \<le> (q + of_int (?c * 100)) / of_int ?n
        \<and> (q + of_int (?c * 100)) / of_int ?n \<le> 100"
    using n percent_bounds [OF n c0 c1, of q]
    by (simp add: HandleProgressMessage1_def Let_def currentProgressPercent_def SetProgress_def)
  from cur lo hi pm show "currentProgressPercent (HandleChunkedProgress2 t s)
       = Some (of_int (100 * (?c + 1)) / of_int ?n)
   \<and> 0 \<le> (of_int (100 * (?c + 1)) / of_int ?n :: rat)
   \<and> (of_int (100 * (?c + 1)) / of_int ?n :: rat) \<le> 100
   \<and> (py_float (GetRegexMatch m 1) = Inr q \<and> 0 \<le> q \<and> q \<le> 100 \<longrightarrow>
        HandleProgressMessage1 t m s
          = Inr (SetProgress ((q + of_int (?c * 100)) / of_int ?n) s)
        \<and> currentProgressPercent (SetProgress ((q + of_int (?c * 100)) / of_int ?n) s)
          = Some ((q + of_int (?c * 100)) / of_int ?n)
        \<and> 0 \<le> (q + of_int (?c * 100)) / of_int ?n
        \<and> (q + of_int (?c * 100)) / of_int ?n \<le> 100)"
    by blast
qed

lemma py_float_50: "py_float ''50'' = Inr 50"
  by (simp add: py_float_def digit_of_def)

theorem progress_within_bounds_witness:
  "currentProgressPercent (HandleChunkedProgress2 (example_task 1 10) (PreRenderTasks new_plugin))
     = Some 10
   \<and> HandleProgressMessage1 (example_task 1 10) (example_match [''50%'', ''50''])
        (PreRenderTasks new_plugin)
     = Inr (SetProgress 5 (PreRenderTasks new_plugin))
   \<and> currentProgressPercent (SetProgress 5 (PreRenderTasks new_plugin)) = Some 5"
  using progress_within_bounds [of "example_task 1 10" "PreRenderTasks new_plugin"
      "example_match [''50%'', ''50'']" 50]
  by (simp add: example_task_def example_match_def GetRegexMatch_def py_float_50
      PreRenderTasks_def new_plugin_def)

text \<open>C9 as stated fails: the line "Finished Rendering" is dispatched to
  \<open>HandleChunkedProgress2\<close>, and in a task of the single frame 1 two such lines leave 200
  as the most recently reported progress.\<close>

theorem progress_above_100_counterexample:
  "dispatch regex_search (StdoutHandlers ''mayasoftware'') ''Finished Rendering''
     = Some (''.*Finished Rendering.*'', Cb_HandleChunkedProgress2)
   \<and> currentProgressPercent
        (fst (process (example_task 1 1) two_lines (PreRenderTasks new_plugin)))
     = Some 200
   \<and> (100::rat) < 200"
proof -
  have "dispatch regex_search (StdoutHandlers ''mayasoftware'') ''Finished Rendering''
     = Some (''.*Finished Rendering.*'', Cb_HandleChunkedProgress2)"
    by code_simp
  moreover have "currentProgressPercent
        (fst (process (example_task 1 1) two_lines (PreRenderTasks new_plugin)))
     = Some 200"
    by (simp add: two_lines_def example_task_def HandleChunkedProgress2_def Let_def
        SetProgress_def PreRenderTasks_def new_plugin_def currentProgressPercent_def)
  ultimately show ?thesis
    by simp
qed

subsection \<open>The place of the catch-all in the registry\<close>










end
